theory Spec2Isabelle
  imports Complex_Main
begin

section \<open>Tradecraft: the mock pipeline and the dispatch/poll client\<close>

text \<open>
  A shallow embedding of \<^verbatim>\<open>frontend/src/agents/pipeline.js\<close> and of
  \<^verbatim>\<open>frontend/src/services/api.js\<close>.

  Conventions of the embedding.
  \<^item> A JavaScript number is a \<^typ>\<open>real\<close>: the arithmetic is exact, and NaN, the
    infinities and the rounding of IEEE doubles are not modelled.
  \<^item> A JavaScript string is a \<^typ>\<open>string\<close>; \<open>toUpperCase\<close> maps the ASCII letters
    and leaves every other character alone.
  \<^item> \<^verbatim>\<open>Math.random()\<close>, the clock and the network are inputs of the functions
    that use them.
  \<^item> A thrown error is the \<open>Inl\<close> of a sum.
\<close>

subsection \<open>Strings and numbers of the host language\<close>

definition upper_char :: "char \<Rightarrow> char" where
  "upper_char c =
     (let n = (of_char c :: nat) in if 97 \<le> n \<and> n \<le> 122 then char_of (n - 32) else c)"

definition toUpperCase :: "string \<Rightarrow> string" where
  "toUpperCase s = map upper_char s"

text \<open>
  \<^verbatim>\<open>parseFloat(x.toFixed(f))\<close>: \<open>toFixed\<close> picks the integer \<open>n\<close> with \<open>n / 10^f\<close>
  nearest to \<open>x\<close>, the larger one at a tie, after taking the sign off a negative \<open>x\<close>;
  from \<open>10^21\<close> on it prints the number itself.
\<close>

definition toFixed :: "nat \<Rightarrow> real \<Rightarrow> real" where
  "toFixed f x =
     (if 10 ^ 21 \<le> \<bar>x\<bar> then x
      else if x < 0 then - (of_int \<lfloor>- x * 10 ^ f + 1 / 2\<rfloor> / 10 ^ f)
      else of_int \<lfloor>x * 10 ^ f + 1 / 2\<rfloor> / 10 ^ f)"

text \<open>Rounding to \<open>d\<close> decimals as the specification writes it: \<open>round(x, d)\<close>.\<close>

definition round_dp :: "real \<Rightarrow> nat \<Rightarrow> real" where
  "round_dp x d = of_int (round (x * 10 ^ d)) / 10 ^ d"

subsection \<open>Ticker profiles\<close>

record profile =
  bias :: string
  action :: string
  price :: real
  stop :: real
  tp :: real
  sharpe :: real

definition TICKER_PROFILES :: "(string \<times> profile) list" where
  "TICKER_PROFILES =
    [(''NVDA'', \<lparr>bias = ''BULLISH'', action = ''LONG'', price = 875, stop = 850, tp = 920, sharpe = 1.8\<rparr>),
     (''AAPL'', \<lparr>bias = ''BEARISH'', action = ''SHORT'', price = 189.5, stop = 193, tp = 182, sharpe = 1.4\<rparr>),
     (''SPY'', \<lparr>bias = ''BEARISH'', action = ''SHORT'', price = 502, stop = 512, tp = 488, sharpe = 1.1\<rparr>),
     (''MSFT'', \<lparr>bias = ''BULLISH'', action = ''LONG'', price = 415, stop = 402, tp = 435, sharpe = 1.6\<rparr>),
     (''TSLA'', \<lparr>bias = ''BEARISH'', action = ''SHORT'', price = 265, stop = 278, tp = 248, sharpe = 0.9\<rparr>),
     (''META'', \<lparr>bias = ''BULLISH'', action = ''LONG'', price = 510, stop = 495, tp = 535, sharpe = 1.7\<rparr>)]"

definition neutral_profile :: profile where
  "neutral_profile =
     \<lparr>bias = ''NEUTRAL'', action = ''HOLD'', price = 100, stop = 95, tp = 108, sharpe = 0.8\<rparr>"

definition known_tickers :: "string list" where
  "known_tickers = [''NVDA'', ''AAPL'', ''SPY'', ''MSFT'', ''TSLA'', ''META'']"

text \<open>
  The table is a plain object, so a lookup also finds the names the object inherits
  (\<open>constructor\<close>, \<open>toString\<close> and the like). Each of them has a lowercase letter and
  the key looked up is uppercased, so only the six keys of the table are ever found.
\<close>

definition getProfile :: "string \<Rightarrow> profile" where
  "getProfile ticker =
     (case map_of TICKER_PROFILES (toUpperCase ticker) of
        Some p \<Rightarrow> p
      | None \<Rightarrow> neutral_profile)"

subsection \<open>Payloads of the five stages\<close>

text \<open>
  The characters of the source's string literals that are not ASCII are written as
  their UTF-8 bytes.
\<close>

definition rightwards_arrow :: string where
  "rightwards_arrow = [CHR 0xE2, CHR 0x86, CHR 0x92]"

definition em_dash :: string where
  "em_dash = [CHR 0xE2, CHR 0x80, CHR 0x94]"

text \<open>\<^verbatim>\<open>String(n)\<close> for a natural number \<open>n\<close>, and \<^verbatim>\<open>s.padStart(w, '0')\<close>.\<close>

fun string_of_nat :: "nat \<Rightarrow> string" where
  "string_of_nat n =
     (if n < 10 then [char_of (48 + n)]
      else string_of_nat (n div 10) @ [char_of (48 + n mod 10)])"

declare string_of_nat.simps [simp del]

definition padStart0 :: "nat \<Rightarrow> string \<Rightarrow> string" where
  "padStart0 w s = replicate (w - length s) CHR ''0'' @ s"

record event =
  headline :: string
  ticker :: string
  source :: string

record research_payload =
  signal :: string
  confidence :: real
  summary :: string
  sources :: "string list"
  regime :: string
  key_risks :: "string list"

record signal_payload =
  action :: string
  ticker :: string
  size_pct :: real
  entry_price :: real
  stop_loss :: real
  take_profit :: real
  rationale :: string
  backtest_sharpe :: real
  expected_return_pct :: real
  based_on_signal_id :: string

record risk_metrics_rec =
  position_limit_ok :: bool
  drawdown_ok :: bool
  liquidity_ok :: bool

record risk_payload =
  verdict :: string
  veto :: bool
  adjusted_size_pct :: "real option"
  reason :: string
  risk_metrics :: risk_metrics_rec

record order_payload =
  strategy :: string
  duration_min :: nat
  child_orders :: nat
  limit_price :: real
  expected_slippage_bps :: real
  venue :: string
  status :: string
  exec_notes :: string

text \<open>
  The Execution agent returns one of two shapes: the two-field object
  \<^verbatim>\<open>{status, reason}\<close> or the full order.
\<close>

datatype execution_payload =
  Rejected string string
  | Order order_payload

record supervisor_payload =
  audit_status :: string
  circuit_breaker_triggered :: bool
  human_review_required :: bool
  flags :: "string list"
  compliance_notes :: string
  log_id :: string
  decision_chain_complete :: bool
  total_messages_audited :: nat

subsection \<open>Stage simulators\<close>

definition buildResearchSummary :: "event \<Rightarrow> profile \<Rightarrow> string" where
  "buildResearchSummary ev p =
     (let dir = (if bias p = ''BULLISH'' then ''upside''
                 else if bias p = ''BEARISH'' then ''downside'' else ''sideways'')
      in headline ev @ '' Points to '' @ dir @ '' momentum for '' @ event.ticker ev
         @ ''. Macro regime: '' @ (if bias p = ''BULLISH'' then ''RISK_ON'' else ''RISK_OFF'')
         @ ''.'')"

definition buildRisks :: "profile \<Rightarrow> string list" where
  "buildRisks p =
     (let base = [''Macro regime shift'', ''Fed policy surprise'']
      in if bias p = ''BULLISH''
         then base @ [''Overbought technicals'', ''Earnings miss risk'']
         else base @ [''Short squeeze potential'', ''Sector rotation inflows''])"

text \<open>\<open>r\<close> is the value of the one call of \<^verbatim>\<open>Math.random()\<close>, in \<open>[0, 1)\<close>.\<close>

definition runResearcher :: "real \<Rightarrow> event \<Rightarrow> research_payload" where
  "runResearcher r ev =
     (let p = getProfile (event.ticker ev);
          c = toFixed 2 (0.65 + r * 0.28)
      in \<lparr>signal = bias p,
          confidence = c,
          summary = buildResearchSummary ev p,
          sources = [source ev, ''Macro Desk'', ''SEC Filings''],
          regime = (if bias p = ''BULLISH'' then ''RISK_ON'' else ''RISK_OFF''),
          key_risks = buildRisks p\<rparr>)"

definition runSignalAgent :: "event \<Rightarrow> research_payload \<Rightarrow> signal_payload" where
  "runSignalAgent ev rp =
     (let p = getProfile (event.ticker ev);
          c = confidence rp;
          size = toFixed 1 (min (c * 12) 8)
      in \<lparr>action = (if signal rp = ''BULLISH'' then ''LONG''
                    else if signal rp = ''BEARISH'' then ''SHORT'' else ''HOLD''),
          ticker = toUpperCase (event.ticker ev),
          size_pct = size,
          entry_price = price p,
          stop_loss = stop p,
          take_profit = tp p,
          rationale = take 80 (summary rp) @ ''... Pattern match: 5 similar events ''
            @ rightwards_arrow @ '' '' @ (if bias p = ''BULLISH'' then ''+'' else ''-'')
            @ ''1.2% median 3-day move.'',
          backtest_sharpe = sharpe p,
          expected_return_pct = toFixed 2 ((tp p - price p) / price p * 100),
          based_on_signal_id = ''mock-res-001''\<rparr>)"

text \<open>
  \<open>num_str\<close> is the host's conversion of a number to a string, used by the template
  literals.
\<close>

definition runRiskManager :: "(real \<Rightarrow> string) \<Rightarrow> signal_payload \<Rightarrow> risk_payload" where
  "runRiskManager num_str sp =
     (let rawSize = size_pct sp;
          MAX_POS = 5;
          v = (rawSize > 20 \<or> action sp = ''HOLD'');
          adjusted = (if v then None else Some (min rawSize MAX_POS));
          vd = (if v then ''VETOED''
                else if rawSize > MAX_POS then ''APPROVED_WITH_CONDITIONS''
                else ''APPROVED'')
      in \<lparr>verdict = vd,
          veto = v,
          adjusted_size_pct = adjusted,
          reason =
            (if v then ''Position '' @ num_str rawSize @ ''% exceeds hard limit or HOLD signal ''
                       @ em_dash @ '' trade rejected.''
             else if rawSize > MAX_POS
               then ''Scaled '' @ num_str rawSize @ ''% '' @ rightwards_arrow @ '' ''
                    @ (case adjusted of None \<Rightarrow> ''null'' | Some a \<Rightarrow> num_str a)
                    @ ''% (single-stock 5% cap). Drawdown headroom: 3.8%.''
             else ''Position '' @ num_str rawSize @ ''% within risk limits. Drawdown headroom: 6.2%.''),
          risk_metrics =
            \<lparr>position_limit_ok = (rawSize \<le> MAX_POS), drawdown_ok = True, liquidity_ok = True\<rparr>\<rparr>)"

definition runExecutionAgent ::
  "(real \<Rightarrow> string) \<Rightarrow> real \<Rightarrow> signal_payload \<Rightarrow> risk_payload \<Rightarrow> execution_payload" where
  "runExecutionAgent num_str r sp rp =
     (if veto rp then Rejected ''REJECTED'' ''Vetoed by Risk Manager.''
      else
        let effectiveSize = (case adjusted_size_pct rp of Some a \<Rightarrow> a | None \<Rightarrow> size_pct sp);
            strat = (if effectiveSize > 3 then ''TWAP'' else ''LIMIT'')
        in Order
             \<lparr>strategy = strat,
              duration_min = 30,
              child_orders = 6,
              limit_price = entry_price sp,
              expected_slippage_bps = toFixed 1 (3.5 + r * 2),
              venue = ''PAPER_EXCHANGE'',
              status = ''SIMULATED_FILL'',
              exec_notes = strat @ '' over 30 min. Size: '' @ num_str effectiveSize @ ''% of NAV.''\<rparr>)"

subsection \<open>The results object and the Supervisor\<close>

text \<open>
  The orchestrator's \<^verbatim>\<open>results\<close> is an object whose properties hold payloads, a
  string and a boolean. An object is the list of its properties in insertion order;
  assigning to a property that exists keeps its place.
\<close>

datatype jvalue =
  VResearch research_payload
  | VSignal signal_payload
  | VRisk risk_payload
  | VExec execution_payload
  | VSupervisor supervisor_payload
  | VStr string
  | VBool bool

type_synonym jobject = "(string \<times> jvalue) list"

definition obj_get :: "jobject \<Rightarrow> string \<Rightarrow> jvalue option" where
  "obj_get obj k = map_of obj k"

fun obj_set :: "jobject \<Rightarrow> string \<Rightarrow> jvalue \<Rightarrow> jobject" where
  "obj_set [] k v = [(k, v)]"
| "obj_set ((k', v') # kvs) k v =
     (if k' = k then (k, v) # kvs else (k', v') # obj_set kvs k v)"

definition obj_keys :: "jobject \<Rightarrow> string list" where
  "obj_keys obj = remdups (map fst obj)"

text \<open>\<^verbatim>\<open>Boolean(x)\<close> of a property that may be absent: every object is truthy.\<close>

fun truthy :: "jvalue option \<Rightarrow> bool" where
  "truthy None = False"
| "truthy (Some (VStr s)) = (s \<noteq> [])"
| "truthy (Some (VBool b)) = b"
| "truthy (Some _) = True"

text \<open>\<^verbatim>\<open>Boolean(all.risk_manager?.veto)\<close>: only a Risk payload has a \<open>veto\<close>.\<close>

fun veto_of :: "jvalue option \<Rightarrow> bool" where
  "veto_of (Some (VRisk rp)) = veto rp"
| "veto_of _ = False"

text \<open>
  \<open>now_iso\<close> is \<^verbatim>\<open>new Date().toISOString()\<close> and \<open>r\<close> the value of
  \<^verbatim>\<open>Math.random()\<close>.
\<close>

definition runSupervisor :: "string \<Rightarrow> real \<Rightarrow> jobject \<Rightarrow> supervisor_payload" where
  "runSupervisor now_iso r all =
     (let logId = ''TRD-'' @ filter (\<lambda>c. c \<noteq> CHR ''-'') (take 10 now_iso) @ ''-''
                  @ padStart0 4 (string_of_nat (nat \<lfloor>r * 9999\<rfloor>));
          hasResearch = truthy (obj_get all ''researcher'');
          hasRisk = truthy (obj_get all ''risk_manager'');
          chainOk = (hasResearch \<and> hasRisk)
      in \<lparr>audit_status = (if chainOk then ''COMPLIANT'' else ''NON_COMPLIANT''),
          circuit_breaker_triggered = False,
          human_review_required = veto_of (obj_get all ''risk_manager''),
          flags = (if chainOk then [] else [''Missing research basis or risk review'']),
          compliance_notes =
            (if chainOk
             then ''Full decision chain verified. Risk limits honored. No regulatory flags detected.''
             else ''Incomplete decision chain '' @ em_dash @ '' manual review required.''),
          log_id = logId,
          decision_chain_complete = chainOk,
          total_messages_audited = length (obj_keys all)\<rparr>)"

subsection \<open>The mock orchestrator\<close>

text \<open>
  What a run does besides returning: it waits (\<open>Delay ms\<close>) and calls the callback
  (\<open>OnStep key payload done\<close>, where an absent third argument is \<open>False\<close>).
  \<open>rnd k\<close> is the value of the \<open>k\<close>-th call of \<^verbatim>\<open>Math.random()\<close> of the run.
\<close>

datatype step_event =
  Delay real
  | OnStep string jvalue bool

definition jitter :: "real \<Rightarrow> real" where
  "jitter r = r * 400"

definition runMockPipeline ::
  "(real \<Rightarrow> string) \<Rightarrow> string \<Rightarrow> (nat \<Rightarrow> real) \<Rightarrow> event \<Rightarrow> jobject \<times> step_event list" where
  "runMockPipeline num_str now_iso rnd ev =
     (let results0 = [];
          researchPayload = runResearcher (rnd 1) ev;
          results1 = obj_set results0 ''researcher'' (VResearch researchPayload);
          signalPayload = runSignalAgent ev researchPayload;
          results2 = obj_set results1 ''signal_agent'' (VSignal signalPayload);
          riskPayload = runRiskManager num_str signalPayload;
          results3 = obj_set results2 ''risk_manager'' (VRisk riskPayload);
          steps3 =
            [Delay (600 + jitter (rnd 0)), OnStep ''researcher'' (VResearch researchPayload) False,
             Delay (700 + jitter (rnd 2)), OnStep ''signal_agent'' (VSignal signalPayload) False,
             Delay (800 + jitter (rnd 3)), OnStep ''risk_manager'' (VRisk riskPayload) False]
      in if veto riskPayload then
           let supervisorPayload = runSupervisor now_iso (rnd 5) results3;
               results4 = obj_set results3 ''supervisor'' (VSupervisor supervisorPayload)
           in (obj_set results4 ''_vetoed'' (VBool True),
               steps3 @ [Delay (500 + jitter (rnd 4)),
                         OnStep ''supervisor'' (VSupervisor supervisorPayload) True])
         else
           let execPayload = runExecutionAgent num_str (rnd 5) signalPayload riskPayload;
               results4 = obj_set results3 ''execution_agent'' (VExec execPayload);
               supervisorPayload = runSupervisor now_iso (rnd 7) results4;
               results5 = obj_set results4 ''supervisor'' (VSupervisor supervisorPayload)
           in (obj_set (obj_set results5 ''status'' (VStr ''complete'')) ''_vetoed'' (VBool False),
               steps3 @ [Delay (700 + jitter (rnd 4)),
                         OnStep ''execution_agent'' (VExec execPayload) False,
                         Delay (600 + jitter (rnd 6)),
                         OnStep ''supervisor'' (VSupervisor supervisorPayload) True]))"

text \<open>
  A stand-in for the host's conversion of a number to a string, to run the model on
  examples: the integer part and up to two decimals.
\<close>

definition num_str2 :: "real \<Rightarrow> string" where
  "num_str2 x =
     (let c = nat \<lfloor>\<bar>x\<bar> * 100 + 1 / 2\<rfloor>;
          f = c mod 100
      in (if x < 0 then ''-'' else [])
         @ string_of_nat (c div 100)
         @ (if f = 0 then [] else CHR ''.'' # (if f mod 10 = 0 then string_of_nat (f div 10)
                                               else padStart0 2 (string_of_nat f))))"

subsection \<open>The network, as the client sees it\<close>

text \<open>
  A JSON value as \<^verbatim>\<open>resp.json()\<close> yields it. Reading the body of a response either
  throws (\<open>NotJson\<close>) or gives a value. \<^verbatim>\<open>fetch\<close> either rejects (\<open>Failed\<close>) or
  resolves to a response, whose \<^verbatim>\<open>ok\<close> is true for the statuses 200 to 299.
\<close>

datatype json =
  JNull
  | JBool bool
  | JNum real
  | JStr string
  | JArr "json list"
  | JObj "(string \<times> json) list"

datatype body = NotJson | Json json

record response =
  resp_status :: nat
  resp_body :: body

definition ok :: "response \<Rightarrow> bool" where
  "ok resp = (200 \<le> resp_status resp \<and> resp_status resp \<le> 299)"

datatype fetch_result = Failed | Got response

datatype js_error =
  Error string
  | TypeError
  | FetchError

text \<open>\<^verbatim>\<open>x.name\<close> on a value that is not null: only an object has properties of its own.\<close>

fun member :: "json \<Rightarrow> string \<Rightarrow> json option" where
  "member (JObj fs) k = map_of fs k"
| "member _ k = None"

text \<open>Truthiness of a property that may be absent, as \<^verbatim>\<open>||\<close> tests it.\<close>

fun json_truthy :: "json option \<Rightarrow> bool" where
  "json_truthy None = False"
| "json_truthy (Some JNull) = False"
| "json_truthy (Some (JBool b)) = b"
| "json_truthy (Some (JNum x)) = (x \<noteq> 0)"
| "json_truthy (Some (JStr s)) = (s \<noteq> [])"
| "json_truthy (Some (JArr xs)) = True"
| "json_truthy (Some (JObj fs)) = True"

text \<open>
  The message of \<^verbatim>\<open>new Error(v)\<close> is \<open>v\<close> converted to a string; \<open>to_str\<close> is the
  host's conversion of the values that are not strings.
\<close>

fun error_message :: "(json \<Rightarrow> string) \<Rightarrow> json \<Rightarrow> string" where
  "error_message to_str (JStr s) = s"
| "error_message to_str v = to_str v"

subsection \<open>Dispatch\<close>

record dispatch_request =
  url :: string
  authorization :: string
  ref :: string
  in_headline :: string
  in_ticker :: string
  in_source :: string
  in_run_id :: string

text \<open>
  \<open>owner\<close> and \<open>repo\<close> come from the page's configuration, \<open>now_ms\<close> is
  \<^verbatim>\<open>Date.now()\<close>, and \<open>net req\<close> is what the network answers to the request.
  The function returns its outcome and the requests it has sent.
\<close>

definition dispatchPipeline ::
  "string \<Rightarrow> string \<Rightarrow> (json \<Rightarrow> string) \<Rightarrow> nat \<Rightarrow> (dispatch_request \<Rightarrow> fetch_result)
   \<Rightarrow> event \<Rightarrow> string \<Rightarrow> (js_error + string) \<times> dispatch_request list" where
  "dispatchPipeline owner repo to_str now_ms net ev token =
     (let runId = ''run-'' @ string_of_nat now_ms;
          req = \<lparr>url = ''https://api.github.com/repos/'' @ owner @ ''/'' @ repo
                      @ ''/actions/workflows/pipeline-run.yml/dispatches'',
                 authorization = ''Bearer '' @ token,
                 ref = ''main'',
                 in_headline = headline ev,
                 in_ticker = event.ticker ev,
                 in_source = source ev,
                 in_run_id = runId\<rparr>
      in (case net req of
            Failed \<Rightarrow> (Inl FetchError, [req])
          | Got resp \<Rightarrow>
              if \<not> ok resp then
                let err = (case resp_body resp of NotJson \<Rightarrow> JObj [] | Json j \<Rightarrow> j)
                in (case err of
                      JNull \<Rightarrow> (Inl TypeError, [req])
                    | _ \<Rightarrow>
                        (if json_truthy (member err ''message'')
                         then (Inl (Error (error_message to_str (the (member err ''message'')))), [req])
                         else (Inl (Error (''Dispatch failed: '' @ string_of_nat (resp_status resp))),
                               [req])))
              else (Inr runId, [req])))"

subsection \<open>Polling\<close>

text \<open>
  Time is the value of \<^verbatim>\<open>Date.now()\<close>, in milliseconds. The \<open>k\<close>-th turn of the loop
  meets \<open>world k\<close>: how much later than asked the timer of \<^verbatim>\<open>sleep\<close> fires, what the
  fetch yields, and how long the fetch and the reading of the body take. A timer never
  fires early and the clock never goes back.
\<close>

record tick =
  lag :: nat
  fetched :: fetch_result
  took :: nat

record attempt =
  entered_at :: nat
  issued_at :: nat
  outcome :: fetch_result

record poll_state =
  now :: nat
  iter :: nat
  attempts :: "attempt list"
  pings :: "int list"

text \<open>\<^verbatim>\<open>data?.status === 'complete'\<close>\<close>

fun is_complete :: "json \<Rightarrow> bool" where
  "is_complete JNull = False"
| "is_complete j = (member j ''status'' = Some (JStr ''complete''))"

text \<open>
  The \<^verbatim>\<open>try\<close> block: the data it returns, or \<open>None\<close> when it falls through or
  when the fetch or the reading of the body throws, which the \<^verbatim>\<open>catch\<close> swallows.
\<close>

fun try_fetch :: "fetch_result \<Rightarrow> json option" where
  "try_fetch Failed = None"
| "try_fetch (Got resp) =
     (if ok resp then
        (case resp_body resp of
           NotJson \<Rightarrow> None
         | Json data \<Rightarrow> if is_complete data then Some data else None)
      else None)"

definition timeout_error :: js_error where
  "timeout_error = Error ''Pipeline timed out after 2 minutes. Check Actions tab.''"

definition after_sleep :: "nat \<Rightarrow> nat \<Rightarrow> tick \<Rightarrow> poll_state \<Rightarrow> poll_state" where
  "after_sleep deadline intervalMs t s =
     (let woke = now s + intervalMs + lag t
      in \<lparr>now = woke + took t,
          iter = iter s + 1,
          attempts = attempts s @ [\<lparr>entered_at = now s, issued_at = woke, outcome = fetched t\<rparr>],
          pings = pings s @ [round ((real_of_int (int deadline - int woke)) / 1000)]\<rparr>)"

partial_function (option) poll_loop ::
  "(nat \<Rightarrow> tick) \<Rightarrow> nat \<Rightarrow> nat \<Rightarrow> poll_state \<Rightarrow> ((js_error + json) \<times> poll_state) option" where
  "poll_loop world deadline intervalMs s =
     (if now s < deadline then
        (case try_fetch (fetched (world (iter s))) of
           Some data \<Rightarrow> Some (Inr data, after_sleep deadline intervalMs (world (iter s)) s)
         | None \<Rightarrow>
             poll_loop world deadline intervalMs (after_sleep deadline intervalMs (world (iter s)) s))
      else Some (Inl timeout_error, s))"

declare poll_loop.simps [code]

definition pollForResult ::
  "(nat \<Rightarrow> tick) \<Rightarrow> nat \<Rightarrow> nat \<Rightarrow> nat \<Rightarrow> ((js_error + json) \<times> poll_state) option" where
  "pollForResult world now_ms maxWaitMs intervalMs =
     poll_loop world (now_ms + maxWaitMs) intervalMs
       \<lparr>now = now_ms, iter = 0, attempts = [], pings = []\<rparr>"

subsection \<open>Properties of the dispatch and polling code, as definitions\<close>

text \<open>The \<open>message\<close> property of the body of a response, when it parses and has one.\<close>

fun message_of :: "body \<Rightarrow> json option" where
  "message_of NotJson = None"
| "message_of (Json j) = member j ''message''"

text \<open>
  What holds of the state of the polling loop each time its test is reached: no attempt
  so far has returned data, each began before the deadline and issued its fetch an
  interval or more later, and the attempts are the fetches of the world in order.
\<close>

definition poll_inv :: "(nat \<Rightarrow> tick) \<Rightarrow> nat \<Rightarrow> nat \<Rightarrow> poll_state \<Rightarrow> bool" where
  "poll_inv world deadline intervalMs s =
     ((\<forall>a \<in> set (attempts s).
         try_fetch (outcome a) = None \<and> entered_at a < deadline \<and>
         entered_at a + intervalMs \<le> issued_at a) \<and>
      iter s = length (attempts s) \<and>
      map outcome (attempts s) = map (\<lambda>k. fetched (world k)) [0..<length (attempts s)])"

text \<open>What holds of the result of the polling loop.\<close>

definition poll_post ::
  "(nat \<Rightarrow> tick) \<Rightarrow> nat \<Rightarrow> nat \<Rightarrow> (js_error + json) \<Rightarrow> poll_state \<Rightarrow> bool" where
  "poll_post world deadline intervalMs r s' =
     (map outcome (attempts s') = map (\<lambda>k. fetched (world k)) [0..<length (attempts s')] \<and>
      (\<forall>a \<in> set (attempts s').
         entered_at a < deadline \<and> entered_at a + intervalMs \<le> issued_at a) \<and>
      (\<forall>a \<in> set (butlast (attempts s')). try_fetch (outcome a) = None) \<and>
      (case r of
         Inr data \<Rightarrow>
           attempts s' \<noteq> [] \<and> try_fetch (outcome (last (attempts s'))) = Some data
       | Inl e \<Rightarrow>
           e = timeout_error \<and> deadline \<le> now s' \<and>
           (\<forall>a \<in> set (attempts s'). try_fetch (outcome a) = None)))"

text \<open>
  The clock is at least one interval per attempt past the start, and the last attempt
  began before the wait budget was spent.
\<close>

definition count_inv :: "nat \<Rightarrow> nat \<Rightarrow> nat \<Rightarrow> poll_state \<Rightarrow> bool" where
  "count_inv now_ms maxWaitMs intervalMs s =
     (now_ms + intervalMs * length (attempts s) \<le> now s \<and>
      (attempts s = [] \<or> intervalMs * (length (attempts s) - 1) < maxWaitMs))"

text \<open>
  The reading of the specification: some fetch issued before the deadline has given a
  complete body.
\<close>

definition fetch_succeeded_before :: "nat \<Rightarrow> attempt list \<Rightarrow> bool" where
  "fetch_succeeded_before deadline as =
     list_ex (\<lambda>a. issued_at a < deadline \<and> try_fetch (outcome a) \<noteq> None) as"

subsection \<open>Sample inputs\<close>

definition nvda_event :: event where
  "nvda_event = \<lparr>headline = ''NVDA beats earnings'', ticker = ''NVDA'', source = ''NASDAQ Filing''\<rparr>"

definition ibm_event :: event where
  "ibm_event = \<lparr>headline = ''IBM opens a lab'', ticker = ''ibm'', source = ''Newswire''\<rparr>"

definition long_signal :: signal_payload where
  "long_signal =
     \<lparr>action = ''LONG'', ticker = ''NVDA'', size_pct = 8, entry_price = 875, stop_loss = 850,
      take_profit = 920, rationale = ''Pattern match'', backtest_sharpe = 1.8,
      expected_return_pct = 5.14, based_on_signal_id = ''mock-res-001''\<rparr>"

definition hold_signal :: signal_payload where
  "hold_signal =
     \<lparr>action = ''HOLD'', ticker = ''IBM'', size_pct = 8, entry_price = 100, stop_loss = 95,
      take_profit = 108, rationale = ''Pattern match'', backtest_sharpe = 0.8,
      expected_return_pct = 8, based_on_signal_id = ''mock-res-001''\<rparr>"

definition half_rnd :: "nat \<Rightarrow> real" where
  "half_rnd k = 1 / 2"

definition sample_date :: string where
  "sample_date = ''2026-11-02T10:00:00.000Z''"

text \<open>The order of an Execution payload, when it is one.\<close>

fun order_of :: "execution_payload \<Rightarrow> order_payload option" where
  "order_of (Order od) = Some od"
| "order_of (Rejected s r) = None"

definition complete_body :: json where
  "complete_body = JObj [(''researcher'', JObj []), (''status'', JStr ''complete'')]"

definition world_late :: "nat \<Rightarrow> tick" where
  "world_late k =
     (if k = 0 then \<lparr>lag = 0, fetched = Got \<lparr>resp_status = 404, resp_body = NotJson\<rparr>, took = 0\<rparr>
      else \<lparr>lag = 0, fetched = Got \<lparr>resp_status = 200, resp_body = Json complete_body\<rparr>, took = 0\<rparr>)"

definition world_down :: "nat \<Rightarrow> tick" where
  "world_down k = \<lparr>lag = 0, fetched = Failed, took = 0\<rparr>"

definition late_state :: poll_state where
  "late_state =
     \<lparr>now = 6000, iter = 2,
      attempts =
        [\<lparr>entered_at = 0, issued_at = 3000,
          outcome = Got \<lparr>resp_status = 404, resp_body = NotJson\<rparr>\<rparr>,
         \<lparr>entered_at = 3000, issued_at = 6000,
          outcome = Got \<lparr>resp_status = 200, resp_body = Json complete_body\<rparr>\<rparr>],
      pings = [2, - 1]\<rparr>"

text \<open>A stand-in for the host's conversion of a JSON value to a string.\<close>

fun json_str :: "json \<Rightarrow> string" where
  "json_str JNull = ''null''"
| "json_str (JBool b) = (if b then ''true'' else ''false'')"
| "json_str (JNum x) = num_str2 x"
| "json_str (JStr s) = s"
| "json_str (JArr xs) = ''''"
| "json_str (JObj fs) = ''[object Object]''"

definition net_422_empty_message :: "dispatch_request \<Rightarrow> fetch_result" where
  "net_422_empty_message req =
     Got \<lparr>resp_status = 422, resp_body = Json (JObj [(''message'', JStr '''')])\<rparr>"

definition net_401 :: "dispatch_request \<Rightarrow> fetch_result" where
  "net_401 req =
     Got \<lparr>resp_status = 401, resp_body = Json (JObj [(''message'', JStr ''Bad credentials'')])\<rparr>"

definition net_204 :: "dispatch_request \<Rightarrow> fetch_result" where
  "net_204 req = Got \<lparr>resp_status = 204, resp_body = NotJson\<rparr>"

definition net_502_null :: "dispatch_request \<Rightarrow> fetch_result" where
  "net_502_null req = Got \<lparr>resp_status = 502, resp_body = Json JNull\<rparr>"

section \<open>Verified properties\<close>

subsection \<open>Profile lookup\<close>

lemma upper_char_idem: "upper_char (upper_char c) = upper_char c"
  unfolding upper_char_def Let_def by auto

lemma toUpperCase_idem: "toUpperCase (toUpperCase s) = toUpperCase s"
  by (simp add: toUpperCase_def upper_char_idem)

lemma map_of_TICKER_PROFILES_None:
  "k \<notin> {''NVDA'', ''AAPL'', ''SPY'', ''MSFT'', ''TSLA'', ''META''} \<Longrightarrow>
   map_of TICKER_PROFILES k = None"
  by (simp add: TICKER_PROFILES_def)

lemma getProfile_cases:
  "getProfile t \<in> set (map snd TICKER_PROFILES) \<or> getProfile t = neutral_profile"
proof (cases "map_of TICKER_PROFILES (toUpperCase t)")
  case None
  then show ?thesis by (simp add: getProfile_def)
next
  case (Some p)
  then have "(toUpperCase t, p) \<in> set TICKER_PROFILES" by (rule map_of_SomeD)
  then have "snd (toUpperCase t, p) \<in> snd ` set TICKER_PROFILES" by (rule imageI)
  with Some show ?thesis by (simp add: getProfile_def)
qed

text \<open>
  Claim C4. The lookup of a profile does not depend on the case of the ticker:
  a ticker and its uppercased form have the same profile. A ticker whose uppercased
  form is none of NVDA, AAPL, SPY, MSFT, TSLA and META has the neutral profile
  (NEUTRAL, HOLD, price 100, stop 95, target 108, sharpe 0.8).
\<close>

theorem getProfile_case_insensitive:
  "getProfile t = getProfile (toUpperCase t) \<and>
   (toUpperCase t \<notin> {''NVDA'', ''AAPL'', ''SPY'', ''MSFT'', ''TSLA'', ''META''} \<longrightarrow>
      getProfile t = \<lparr>bias = ''NEUTRAL'', profile.action = ''HOLD'', price = 100, stop = 95,
                      tp = 108, sharpe = 0.8\<rparr>)"
  by (simp add: getProfile_def toUpperCase_idem map_of_TICKER_PROFILES_None neutral_profile_def)

theorem getProfile_case_insensitive_witness:
  "getProfile ''msft'' = getProfile ''MSFT'' \<and> getProfile ''ibm'' = neutral_profile"
proof -
  have u1: "toUpperCase ''msft'' = ''MSFT''" by code_simp
  have u2: "toUpperCase ''ibm'' = ''IBM''" by code_simp
  have a: "getProfile ''msft'' = getProfile ''MSFT''"
    using getProfile_case_insensitive [of "''msft''", THEN conjunct1] by (simp add: u1)
  have b: "getProfile ''ibm'' = neutral_profile"
    using getProfile_case_insensitive [of "''ibm''", THEN conjunct2]
    by (simp add: u2 neutral_profile_def)
  from a b show ?thesis by (rule conjI)
qed

subsection \<open>Rounding\<close>

lemma toFixed_nonneg:
  assumes "0 \<le> x" "x < 10 ^ 21"
  shows "toFixed f x = round_dp x f"
  using assms by (simp add: toFixed_def round_dp_def round_def)

lemma round_dp_bounds:
  assumes "0 \<le> x" "x \<le> of_int n"
  shows "0 \<le> round_dp x f \<and> round_dp x f \<le> of_int n"
proof -
  have p: "(0::real) < 10 ^ f" by simp
  have "0 \<le> x * 10 ^ f" using assms by simp
  then have "0 \<le> round (x * 10 ^ f)" by (simp add: round_def)
  then have lo: "0 \<le> round_dp x f" by (simp add: round_dp_def)
  have "x * 10 ^ f \<le> of_int (n * 10 ^ f)" using assms p by simp
  then have "round (x * 10 ^ f) \<le> round (of_int (n * 10 ^ f) :: real)" by (rule round_mono)
  then have "round (x * 10 ^ f) \<le> n * 10 ^ f" by (simp only: round_of_int)
  then have "(of_int (round (x * 10 ^ f)) :: real) \<le> of_int (n * 10 ^ f)"
    by (simp only: of_int_le_iff)
  then have "round_dp x f \<le> of_int n" using p by (simp add: round_dp_def divide_le_eq)
  with lo show ?thesis by simp
qed

lemma expected_return_profile:
  "toFixed 2 ((tp (getProfile t) - price (getProfile t)) / price (getProfile t) * 100) =
   round_dp ((tp (getProfile t) - price (getProfile t)) / price (getProfile t) * 100) 2"
  using getProfile_cases [of t]
  by (auto simp: TICKER_PROFILES_def neutral_profile_def toFixed_def round_dp_def round_def)

subsection \<open>Signal agent\<close>

text \<open>
  Claim C3. For every event and every research payload whose confidence is not negative,
  the size of the Signal payload is \<open>min (confidence * 12) 8\<close> rounded to one decimal and
  lies between 0 and 8; the action is LONG for a BULLISH signal, SHORT for a BEARISH one
  and HOLD otherwise; entry, stop and target are those of the ticker's profile; and the
  expected return is \<open>(target - price) / price * 100\<close> rounded to two decimals.
\<close>

theorem runSignalAgent_payload:
  assumes "0 \<le> confidence rp"
  shows "size_pct (runSignalAgent ev rp) = round_dp (min (confidence rp * 12) 8) 1 \<and>
         0 \<le> size_pct (runSignalAgent ev rp) \<and> size_pct (runSignalAgent ev rp) \<le> 8 \<and>
         action (runSignalAgent ev rp) =
           (if signal rp = ''BULLISH'' then ''LONG''
            else if signal rp = ''BEARISH'' then ''SHORT'' else ''HOLD'') \<and>
         entry_price (runSignalAgent ev rp) = price (getProfile (event.ticker ev)) \<and>
         stop_loss (runSignalAgent ev rp) = stop (getProfile (event.ticker ev)) \<and>
         take_profit (runSignalAgent ev rp) = tp (getProfile (event.ticker ev)) \<and>
         expected_return_pct (runSignalAgent ev rp) =
           round_dp ((tp (getProfile (event.ticker ev)) - price (getProfile (event.ticker ev)))
                     / price (getProfile (event.ticker ev)) * 100) 2"
proof -
  let ?x = "min (confidence rp * 12) 8"
  have x0: "0 \<le> ?x" using assms by simp
  have x8: "?x \<le> of_int 8" by simp
  have "?x < 10 ^ 21" by (simp add: min_less_iff_disj)
  then have sz: "size_pct (runSignalAgent ev rp) = round_dp ?x 1"
    using x0 by (simp add: runSignalAgent_def Let_def toFixed_nonneg)
  have bd: "0 \<le> round_dp ?x 1 \<and> round_dp ?x 1 \<le> of_int 8"
    using x0 x8 by (rule round_dp_bounds)
  have rest: "action (runSignalAgent ev rp) =
           (if signal rp = ''BULLISH'' then ''LONG''
            else if signal rp = ''BEARISH'' then ''SHORT'' else ''HOLD'') \<and>
         entry_price (runSignalAgent ev rp) = price (getProfile (event.ticker ev)) \<and>
         stop_loss (runSignalAgent ev rp) = stop (getProfile (event.ticker ev)) \<and>
         take_profit (runSignalAgent ev rp) = tp (getProfile (event.ticker ev))"
    by (simp add: runSignalAgent_def Let_def)
  have er: "expected_return_pct (runSignalAgent ev rp) =
           round_dp ((tp (getProfile (event.ticker ev)) - price (getProfile (event.ticker ev)))
                     / price (getProfile (event.ticker ev)) * 100) 2"
    using expected_return_profile [of "event.ticker ev"]
    by (simp add: runSignalAgent_def Let_def)
  from sz bd rest er show ?thesis by simp
qed

theorem runSignalAgent_payload_witness:
  "size_pct (runSignalAgent nvda_event (runResearcher (15 / 28) nvda_event)) = 8 \<and>
   action (runSignalAgent nvda_event (runResearcher (15 / 28) nvda_event)) = ''LONG''"
proof -
  have c: "confidence (runResearcher (15 / 28) nvda_event) = 0.8"
    by (simp add: runResearcher_def Let_def toFixed_def)
  have s: "signal (runResearcher (15 / 28) nvda_event) = ''BULLISH''"
    by code_simp
  have h: "0 \<le> confidence (runResearcher (15 / 28) nvda_event)" by (simp add: c)
  show ?thesis
    using runSignalAgent_payload [OF h, of nvda_event]
    by (simp add: c s round_dp_def round_def)
qed

subsection \<open>Risk manager\<close>

text \<open>
  Claim C1. For every signal payload, the Risk Manager vetoes exactly when the size is
  above 20 or the action is HOLD. On a veto the adjusted size is null and the verdict is
  VETOED. Otherwise the adjusted size is the smaller of the size and 5, and the verdict
  is APPROVED_WITH_CONDITIONS when the size is above 5 and APPROVED when it is not.
\<close>

theorem runRiskManager_verdict:
  "veto (runRiskManager ns sp) = (size_pct sp > 20 \<or> action sp = ''HOLD'') \<and>
   (veto (runRiskManager ns sp) \<longrightarrow>
      adjusted_size_pct (runRiskManager ns sp) = None \<and>
      verdict (runRiskManager ns sp) = ''VETOED'') \<and>
   (\<not> veto (runRiskManager ns sp) \<longrightarrow>
      adjusted_size_pct (runRiskManager ns sp) = Some (min (size_pct sp) 5) \<and>
      verdict (runRiskManager ns sp) =
        (if size_pct sp > 5 then ''APPROVED_WITH_CONDITIONS'' else ''APPROVED''))"
  by (simp add: runRiskManager_def Let_def)

theorem runRiskManager_verdict_witness:
  "veto (runRiskManager num_str2 hold_signal) \<and>
   adjusted_size_pct (runRiskManager num_str2 hold_signal) = None \<and>
   verdict (runRiskManager num_str2 hold_signal) = ''VETOED'' \<and>
   \<not> veto (runRiskManager num_str2 long_signal) \<and>
   adjusted_size_pct (runRiskManager num_str2 long_signal) = Some 5 \<and>
   verdict (runRiskManager num_str2 long_signal) = ''APPROVED_WITH_CONDITIONS''"
  using runRiskManager_verdict [of num_str2 hold_signal]
    runRiskManager_verdict [of num_str2 long_signal]
  by (simp add: hold_signal_def long_signal_def)

subsection \<open>Execution agent\<close>

lemma slippage_bounds:
  assumes "0 \<le> r" "r < 1"
  shows "3.5 \<le> toFixed 1 (3.5 + r * 2) \<and> toFixed 1 (3.5 + r * 2) \<le> 5.5"
proof -
  let ?x = "3.5 + r * 2"
  have x0: "0 \<le> ?x" using assms by simp
  have "?x < 10 ^ 21" using assms by simp
  with x0 have eq: "toFixed 1 ?x = round_dp ?x 1" by (rule toFixed_nonneg)
  have "of_int 35 \<le> ?x * 10 ^ 1" using assms by simp
  then have "round (of_int 35 :: real) \<le> round (?x * 10 ^ 1)" by (rule round_mono)
  then have lo: "35 \<le> round (?x * 10 ^ 1)" by (simp only: round_of_int)
  have "?x * 10 ^ 1 \<le> of_int 55" using assms by simp
  then have "round (?x * 10 ^ 1) \<le> round (of_int 55 :: real)" by (rule round_mono)
  then have hi: "round (?x * 10 ^ 1) \<le> 55" by (simp only: round_of_int)
  from lo have "(35::real) \<le> of_int (round (?x * 10 ^ 1))" by linarith
  moreover from hi have "of_int (round (?x * 10 ^ 1)) \<le> (55::real)" by linarith
  ultimately show ?thesis unfolding eq round_dp_def by simp
qed

text \<open>
  Claim C7, amended. For every signal payload, every risk payload and every random draw
  in \<open>[0, 1)\<close>: when the risk payload vetoes, the Execution agent returns exactly the
  object with status REJECTED and the reason; otherwise the strategy is TWAP when the
  effective size (the adjusted size, or the signal's size when that is null) is above 3
  and LIMIT when it is not, the duration is 30, there are 6 child orders, the status is
  SIMULATED_FILL, and the expected slippage lies in the closed interval from 3.5 to 5.5:
  the draw is rounded to one decimal, which reaches 5.5.
\<close>

theorem runExecutionAgent_payload:
  assumes "0 \<le> r" "r < 1"
  shows "(veto rp \<longrightarrow>
            runExecutionAgent ns r sp rp = Rejected ''REJECTED'' ''Vetoed by Risk Manager.'') \<and>
         (\<not> veto rp \<longrightarrow>
            (\<exists>od. runExecutionAgent ns r sp rp = Order od \<and>
               strategy od =
                 (if (case adjusted_size_pct rp of Some a \<Rightarrow> a | None \<Rightarrow> size_pct sp) > 3
                  then ''TWAP'' else ''LIMIT'') \<and>
               duration_min od = 30 \<and> child_orders od = 6 \<and>
               3.5 \<le> expected_slippage_bps od \<and> expected_slippage_bps od \<le> 5.5 \<and>
               status od = ''SIMULATED_FILL''))"
  using slippage_bounds [OF assms]
  by (simp add: runExecutionAgent_def Let_def)

theorem runExecutionAgent_payload_witness:
  "runExecutionAgent num_str2 (1 / 2) hold_signal (runRiskManager num_str2 hold_signal) =
     Rejected ''REJECTED'' ''Vetoed by Risk Manager.'' \<and>
   map_option strategy
     (order_of (runExecutionAgent num_str2 (1 / 2) long_signal
        (runRiskManager num_str2 long_signal))) = Some ''TWAP''"
proof -
  have r0: "(0::real) \<le> 1 / 2" and r1: "(1 / 2 :: real) < 1" by simp_all
  have v: "veto (runRiskManager num_str2 hold_signal)"
    by (simp add: runRiskManager_def hold_signal_def)
  have n: "\<not> veto (runRiskManager num_str2 long_signal)"
    by (simp add: runRiskManager_def long_signal_def)
  have a: "adjusted_size_pct (runRiskManager num_str2 long_signal) = Some 5"
    by (simp add: runRiskManager_def long_signal_def)
  show ?thesis
    using runExecutionAgent_payload [OF r0 r1, of "runRiskManager num_str2 hold_signal" num_str2 hold_signal]
      runExecutionAgent_payload [OF r0 r1, of "runRiskManager num_str2 long_signal" num_str2 long_signal]
      v n a
    by auto
qed

text \<open>
  The claim as written puts the slippage in \<open>[3.5, 5.5)\<close>. With the draw 0.99 the sum is
  5.48, which \<^verbatim>\<open>toFixed(1)\<close> rounds to 5.5.
\<close>

theorem runExecutionAgent_slippage_counterexample:
  "(0::real) \<le> 99 / 100 \<and> (99 / 100 :: real) < 1 \<and>
   \<not> veto (runRiskManager num_str2 long_signal) \<and>
   map_option expected_slippage_bps
     (order_of (runExecutionAgent num_str2 (99 / 100) long_signal
        (runRiskManager num_str2 long_signal))) = Some (11 / 2) \<and>
   \<not> (11 / 2 :: real) < 5.5"
  by (simp add: runExecutionAgent_def runRiskManager_def Let_def long_signal_def toFixed_def)

subsection \<open>The orchestrator\<close>

lemma runSupervisor_compliant:
  "truthy (obj_get all ''researcher'') \<Longrightarrow> truthy (obj_get all ''risk_manager'') \<Longrightarrow>
   audit_status (runSupervisor dt r all) = ''COMPLIANT''"
  by (simp add: runSupervisor_def Let_def)

lemma ibm_run_risk:
  "obj_get (fst (runMockPipeline num_str2 sample_date half_rnd ibm_event)) ''risk_manager'' =
   Some (VRisk (runRiskManager num_str2
     (runSignalAgent ibm_event (runResearcher (half_rnd 1) ibm_event))))"
  by (simp add: runMockPipeline_def Let_def obj_get_def)

lemma ibm_run_veto:
  "veto (runRiskManager num_str2 (runSignalAgent ibm_event (runResearcher (half_rnd 1) ibm_event)))"
  by code_simp

lemma nvda_run_risk:
  "obj_get (fst (runMockPipeline num_str2 sample_date half_rnd nvda_event)) ''risk_manager'' =
   Some (VRisk (runRiskManager num_str2
     (runSignalAgent nvda_event (runResearcher (half_rnd 1) nvda_event))))"
  by (simp add: runMockPipeline_def Let_def obj_get_def)

lemma nvda_run_no_veto:
  "\<not> veto (runRiskManager num_str2
     (runSignalAgent nvda_event (runResearcher (half_rnd 1) nvda_event)))"
  by code_simp

text \<open>
  Claim C2. In every run of the mock orchestrator the result holds the Risk payload; when
  that payload vetoes, the result has no \<open>execution_agent\<close> property, the Supervisor has
  run all the same: its payload is in the result and the last thing the run does is to
  call the callback with it, marked final; and its audit status is COMPLIANT. In general
  the Supervisor reports COMPLIANT whenever the object it audits has a researcher and a
  risk_manager payload.
\<close>

theorem runMockPipeline_veto_short_circuit:
  "(\<exists>rk. obj_get (fst (runMockPipeline ns dt rnd ev)) ''risk_manager'' = Some (VRisk rk) \<and>
      (veto rk \<longrightarrow>
         obj_get (fst (runMockPipeline ns dt rnd ev)) ''execution_agent'' = None \<and>
         (\<exists>sv. obj_get (fst (runMockPipeline ns dt rnd ev)) ''supervisor'' = Some (VSupervisor sv) \<and>
            last (snd (runMockPipeline ns dt rnd ev)) = OnStep ''supervisor'' (VSupervisor sv) True \<and>
            audit_status sv = ''COMPLIANT''))) \<and>
   (truthy (obj_get all ''researcher'') \<and> truthy (obj_get all ''risk_manager'') \<longrightarrow>
      audit_status (runSupervisor dt r all) = ''COMPLIANT'')"
  by (simp add: runMockPipeline_def Let_def obj_get_def runSupervisor_compliant)

theorem runMockPipeline_veto_short_circuit_witness:
  "veto_of (obj_get (fst (runMockPipeline num_str2 sample_date half_rnd ibm_event)) ''risk_manager'') \<and>
   obj_get (fst (runMockPipeline num_str2 sample_date half_rnd ibm_event)) ''execution_agent'' = None \<and>
   (\<exists>sv. obj_get (fst (runMockPipeline num_str2 sample_date half_rnd ibm_event)) ''supervisor''
            = Some (VSupervisor sv) \<and> audit_status sv = ''COMPLIANT'')"
  using runMockPipeline_veto_short_circuit [of num_str2 sample_date half_rnd ibm_event "[]" 0]
    ibm_run_risk ibm_run_veto
  by auto

text \<open>
  Claim C9. In every run of the mock orchestrator the \<open>_vetoed\<close> property of the result
  is the veto of the Risk payload. When the Risk payload does not veto, the result has
  the status \<open>complete\<close>; when it vetoes, \<open>_vetoed\<close> is true and the result has no
  \<open>status\<close> property.
\<close>

theorem runMockPipeline_vetoed_flag:
  "\<exists>rk. obj_get (fst (runMockPipeline ns dt rnd ev)) ''risk_manager'' = Some (VRisk rk) \<and>
      obj_get (fst (runMockPipeline ns dt rnd ev)) ''_vetoed'' = Some (VBool (veto rk)) \<and>
      (\<not> veto rk \<longrightarrow>
         obj_get (fst (runMockPipeline ns dt rnd ev)) ''status'' = Some (VStr ''complete'')) \<and>
      (veto rk \<longrightarrow>
         obj_get (fst (runMockPipeline ns dt rnd ev)) ''_vetoed'' = Some (VBool True) \<and>
         obj_get (fst (runMockPipeline ns dt rnd ev)) ''status'' = None)"
  by (simp add: runMockPipeline_def Let_def obj_get_def)

theorem runMockPipeline_vetoed_flag_witness:
  "obj_get (fst (runMockPipeline num_str2 sample_date half_rnd ibm_event)) ''_vetoed'' = Some (VBool True) \<and>
   obj_get (fst (runMockPipeline num_str2 sample_date half_rnd ibm_event)) ''status'' = None \<and>
   obj_get (fst (runMockPipeline num_str2 sample_date half_rnd nvda_event)) ''_vetoed'' = Some (VBool False) \<and>
   obj_get (fst (runMockPipeline num_str2 sample_date half_rnd nvda_event)) ''status'' = Some (VStr ''complete'')"
  using runMockPipeline_vetoed_flag [of num_str2 sample_date half_rnd ibm_event]
    runMockPipeline_vetoed_flag [of num_str2 sample_date half_rnd nvda_event]
    ibm_run_risk ibm_run_veto nvda_run_risk nvda_run_no_veto
  by auto

subsection \<open>The veto inside the pipeline\<close>

lemma toFixed_le:
  assumes "x \<le> of_int n" "0 \<le> n"
  shows "toFixed f x \<le> of_int n"
proof (cases "0 \<le> x")
  case True
  have "x < 10 ^ 21 \<or> 10 ^ 21 \<le> x" by linarith
  then show ?thesis
  proof
    assume "x < 10 ^ 21"
    with True have "toFixed f x = round_dp x f" by (rule toFixed_nonneg)
    with round_dp_bounds [OF True assms(1), of f] show ?thesis by simp
  next
    assume "10 ^ 21 \<le> x"
    then have "toFixed f x = x" by (simp add: toFixed_def)
    with assms show ?thesis by simp
  qed
next
  case False
  then have neg: "x < 0" by simp
  show ?thesis
  proof (cases "10 ^ 21 \<le> \<bar>x\<bar>")
    case True
    then have "toFixed f x = x" by (simp add: toFixed_def)
    with assms show ?thesis by simp
  next
    case False
    have "0 \<le> - x" using neg by simp
    then have "0 \<le> - x * 10 ^ f" by (rule mult_nonneg_nonneg) simp
    then have "0 \<le> - x * 10 ^ f + 1 / 2" by linarith
    then have "0 \<le> \<lfloor>- x * 10 ^ f + 1 / 2\<rfloor>" by simp
    then have "0 \<le> (of_int \<lfloor>- x * 10 ^ f + 1 / 2\<rfloor> :: real) / 10 ^ f" by simp
    then have "toFixed f x \<le> 0" using neg False by (simp add: toFixed_def)
    with assms show ?thesis by simp
  qed
qed

lemma bias_getProfile:
  "bias (getProfile t) = ''NEUTRAL'' \<longleftrightarrow>
   toUpperCase t \<notin> {''NVDA'', ''AAPL'', ''SPY'', ''MSFT'', ''TSLA'', ''META''}"
proof (cases "toUpperCase t \<in> {''NVDA'', ''AAPL'', ''SPY'', ''MSFT'', ''TSLA'', ''META''}")
  case True
  then show ?thesis by (auto simp: getProfile_def TICKER_PROFILES_def)
next
  case False
  then show ?thesis
    by (simp add: getProfile_def map_of_TICKER_PROFILES_None neutral_profile_def)
qed

lemma bias_getProfile_values:
  "bias (getProfile t) \<in> {''BULLISH'', ''BEARISH'', ''NEUTRAL''}"
  using getProfile_cases [of t]
  by (auto simp: TICKER_PROFILES_def neutral_profile_def)

text \<open>
  Claim C10. In every run of the mock pipeline the size of the Signal payload is at most
  8, so it is never above 20; the Risk payload vetoes exactly when the action is HOLD,
  which is exactly when the research signal is NEUTRAL, which is exactly when the
  uppercased ticker of the event is none of the six keys of the profile table.
\<close>

theorem runMockPipeline_veto_iff_unknown_ticker:
  "\<exists>rs sp rk.
      obj_get (fst (runMockPipeline ns dt rnd ev)) ''researcher'' = Some (VResearch rs) \<and>
      obj_get (fst (runMockPipeline ns dt rnd ev)) ''signal_agent'' = Some (VSignal sp) \<and>
      obj_get (fst (runMockPipeline ns dt rnd ev)) ''risk_manager'' = Some (VRisk rk) \<and>
      size_pct sp \<le> 8 \<and> \<not> size_pct sp > 20 \<and>
      veto rk = (action sp = ''HOLD'') \<and>
      (action sp = ''HOLD'') = (signal rs = ''NEUTRAL'') \<and>
      (signal rs = ''NEUTRAL'') =
        (toUpperCase (event.ticker ev) \<notin> {''NVDA'', ''AAPL'', ''SPY'', ''MSFT'', ''TSLA'', ''META''})"
proof -
  let ?rs = "runResearcher (rnd 1) ev"
  let ?sp = "runSignalAgent ev ?rs"
  let ?rk = "runRiskManager ns ?sp"
  have g1: "obj_get (fst (runMockPipeline ns dt rnd ev)) ''researcher'' = Some (VResearch ?rs)"
    by (simp add: runMockPipeline_def Let_def obj_get_def)
  have g2: "obj_get (fst (runMockPipeline ns dt rnd ev)) ''signal_agent'' = Some (VSignal ?sp)"
    by (simp add: runMockPipeline_def Let_def obj_get_def)
  have g3: "obj_get (fst (runMockPipeline ns dt rnd ev)) ''risk_manager'' = Some (VRisk ?rk)"
    by (simp add: runMockPipeline_def Let_def obj_get_def)
  have "min (confidence ?rs * 12) 8 \<le> of_int 8" by simp
  then have "toFixed 1 (min (confidence ?rs * 12) 8) \<le> of_int 8" by (rule toFixed_le) simp
  then have s8: "size_pct ?sp \<le> 8" by (simp add: runSignalAgent_def Let_def)
  then have s20: "\<not> size_pct ?sp > 20" by simp
  have v: "veto ?rk = (action ?sp = ''HOLD'')"
    using s20 by (simp add: runRiskManager_def Let_def)
  have sg: "signal ?rs = bias (getProfile (event.ticker ev))"
    by (simp add: runResearcher_def Let_def)
  have a0: "(action ?sp = ''HOLD'') = (signal ?rs \<noteq> ''BULLISH'' \<and> signal ?rs \<noteq> ''BEARISH'')"
    by (simp add: runSignalAgent_def Let_def)
  have a: "(action ?sp = ''HOLD'') = (signal ?rs = ''NEUTRAL'')"
    using bias_getProfile_values [of "event.ticker ev"] unfolding a0 sg by auto
  have b: "(signal ?rs = ''NEUTRAL'') =
        (toUpperCase (event.ticker ev) \<notin> {''NVDA'', ''AAPL'', ''SPY'', ''MSFT'', ''TSLA'', ''META''})"
    unfolding sg by (rule bias_getProfile)
  from g1 g2 g3 s8 s20 v a b show ?thesis by blast
qed

theorem runMockPipeline_veto_iff_unknown_ticker_witness:
  "veto_of (obj_get (fst (runMockPipeline num_str2 sample_date half_rnd ibm_event)) ''risk_manager'') \<and>
   \<not> veto_of (obj_get (fst (runMockPipeline num_str2 sample_date half_rnd nvda_event)) ''risk_manager'')"
proof -
  have u1: "toUpperCase (event.ticker ibm_event) = ''IBM''" by code_simp
  have u2: "toUpperCase (event.ticker nvda_event) = ''NVDA''" by code_simp
  show ?thesis
    using runMockPipeline_veto_iff_unknown_ticker [of num_str2 sample_date half_rnd ibm_event]
      runMockPipeline_veto_iff_unknown_ticker [of num_str2 sample_date half_rnd nvda_event]
    by (auto simp: u1 u2)
qed

subsection \<open>Dispatch\<close>

lemma dispatch_requests:
  "snd (dispatchPipeline owner repo to_str now_ms net ev token) =
     [\<lparr>url = ''https://api.github.com/repos/'' @ owner @ ''/'' @ repo
                      @ ''/actions/workflows/pipeline-run.yml/dispatches'',
                 authorization = ''Bearer '' @ token,
                 ref = ''main'',
                 in_headline = headline ev,
                 in_ticker = event.ticker ev,
                 in_source = source ev,
                 in_run_id = ''run-'' @ string_of_nat now_ms\<rparr>]"
  unfolding dispatchPipeline_def Let_def
  apply (simp only: split: fetch_result.split json.split if_split)
  apply (simp only: snd_conv)
  apply simp
  done

lemma dispatch_ok:
  assumes "net \<lparr>url = ''https://api.github.com/repos/'' @ owner @ ''/'' @ repo
                      @ ''/actions/workflows/pipeline-run.yml/dispatches'',
                 authorization = ''Bearer '' @ token,
                 ref = ''main'',
                 in_headline = headline ev,
                 in_ticker = event.ticker ev,
                 in_source = source ev,
                 in_run_id = ''run-'' @ string_of_nat now_ms\<rparr> = Got resp"
    and "ok resp"
  shows "fst (dispatchPipeline owner repo to_str now_ms net ev token)
           = Inr (''run-'' @ string_of_nat now_ms)"
  using assms by (simp add: dispatchPipeline_def Let_def)

lemma dispatch_not_ok:
  assumes "net \<lparr>url = ''https://api.github.com/repos/'' @ owner @ ''/'' @ repo
                      @ ''/actions/workflows/pipeline-run.yml/dispatches'',
                 authorization = ''Bearer '' @ token,
                 ref = ''main'',
                 in_headline = headline ev,
                 in_ticker = event.ticker ev,
                 in_source = source ev,
                 in_run_id = ''run-'' @ string_of_nat now_ms\<rparr> = Got resp"
    and "\<not> ok resp" and "resp_body resp \<noteq> Json JNull"
  shows "fst (dispatchPipeline owner repo to_str now_ms net ev token)
           = Inl (Error
                 (if json_truthy (message_of (resp_body resp))
                  then error_message to_str (the (message_of (resp_body resp)))
                  else ''Dispatch failed: '' @ string_of_nat (resp_status resp)))"
proof (cases "resp_body resp")
  case NotJson
  with assms show ?thesis by (simp add: dispatchPipeline_def Let_def)
next
  case (Json j)
  with assms show ?thesis
    by (cases j) (simp_all add: dispatchPipeline_def Let_def)
qed

text \<open>
  Claim C8, amended. Every dispatch call sends one request and no other. When the
  network answers it with a 2xx response, the call returns the run identifier made of
  the current time. When it answers with another status and a body other than the JSON
  value \<open>null\<close>, the call raises one error: its message is the \<open>message\<close> property of the
  body as a string when the body is an object with a truthy \<open>message\<close>, and
  \<open>Dispatch failed: \<close> followed by the status in every other case, an empty or otherwise
  falsy \<open>message\<close> included.
\<close>

theorem dispatchPipeline_outcome:
  "\<exists>req. snd (dispatchPipeline owner repo to_str now_ms net ev token) = [req] \<and>
     (\<forall>resp. net req = Got resp \<longrightarrow>
        (ok resp = (200 \<le> resp_status resp \<and> resp_status resp \<le> 299)) \<and>
        (ok resp \<longrightarrow>
           fst (dispatchPipeline owner repo to_str now_ms net ev token)
             = Inr (''run-'' @ string_of_nat now_ms)) \<and>
        (\<not> ok resp \<and> resp_body resp \<noteq> Json JNull \<longrightarrow>
           fst (dispatchPipeline owner repo to_str now_ms net ev token)
             = Inl (Error
                 (if json_truthy (message_of (resp_body resp))
                  then error_message to_str (the (message_of (resp_body resp)))
                  else ''Dispatch failed: '' @ string_of_nat (resp_status resp)))))"
proof (intro exI conjI allI impI)
  show "snd (dispatchPipeline owner repo to_str now_ms net ev token) =
     [\<lparr>url = ''https://api.github.com/repos/'' @ owner @ ''/'' @ repo
                      @ ''/actions/workflows/pipeline-run.yml/dispatches'',
                 authorization = ''Bearer '' @ token,
                 ref = ''main'',
                 in_headline = headline ev,
                 in_ticker = event.ticker ev,
                 in_source = source ev,
                 in_run_id = ''run-'' @ string_of_nat now_ms\<rparr>]"
    by (rule dispatch_requests)
next
  fix resp
  show "ok resp = (200 \<le> resp_status resp \<and> resp_status resp \<le> 299)"
    by (simp add: ok_def)
next
  fix resp
  assume "net \<lparr>url = ''https://api.github.com/repos/'' @ owner @ ''/'' @ repo
                      @ ''/actions/workflows/pipeline-run.yml/dispatches'',
                 authorization = ''Bearer '' @ token,
                 ref = ''main'',
                 in_headline = headline ev,
                 in_ticker = event.ticker ev,
                 in_source = source ev,
                 in_run_id = ''run-'' @ string_of_nat now_ms\<rparr> = Got resp"
    and "ok resp"
  then show "fst (dispatchPipeline owner repo to_str now_ms net ev token)
             = Inr (''run-'' @ string_of_nat now_ms)"
    by (rule dispatch_ok)
next
  fix resp
  assume a: "net \<lparr>url = ''https://api.github.com/repos/'' @ owner @ ''/'' @ repo
                      @ ''/actions/workflows/pipeline-run.yml/dispatches'',
                 authorization = ''Bearer '' @ token,
                 ref = ''main'',
                 in_headline = headline ev,
                 in_ticker = event.ticker ev,
                 in_source = source ev,
                 in_run_id = ''run-'' @ string_of_nat now_ms\<rparr> = Got resp"
    and b: "\<not> ok resp \<and> resp_body resp \<noteq> Json JNull"
  from b have b1: "\<not> ok resp" and b2: "resp_body resp \<noteq> Json JNull" by simp_all
  from a b1 b2 show "fst (dispatchPipeline owner repo to_str now_ms net ev token)
             = Inl (Error
                 (if json_truthy (message_of (resp_body resp))
                  then error_message to_str (the (message_of (resp_body resp)))
                  else ''Dispatch failed: '' @ string_of_nat (resp_status resp)))"
    by (rule dispatch_not_ok)
qed

theorem dispatchPipeline_outcome_witness:
  "fst (dispatchPipeline ''o'' ''r'' json_str 1700 net_401 nvda_event ''tok'')
     = Inl (Error ''Bad credentials'') \<and>
   fst (dispatchPipeline ''o'' ''r'' json_str 1700 net_204 nvda_event ''tok'')
     = Inr (''run-'' @ string_of_nat 1700)"
proof -
  have a: "fst (dispatchPipeline ''o'' ''r'' json_str 1700 net_401 nvda_event ''tok'')
     = Inl (Error ''Bad credentials'')"
    using dispatchPipeline_outcome [of "''o''" "''r''" json_str 1700 net_401 nvda_event "''tok''"]
    by (auto simp: net_401_def ok_def)
  have b: "fst (dispatchPipeline ''o'' ''r'' json_str 1700 net_204 nvda_event ''tok'')
     = Inr (''run-'' @ string_of_nat 1700)"
    using dispatchPipeline_outcome [of "''o''" "''r''" json_str 1700 net_204 nvda_event "''tok''"]
    by (auto simp: net_204_def ok_def)
  from a b show ?thesis by (rule conjI)
qed

text \<open>
  The claim as written gives the error the \<open>message\<close> of the body whenever the body has
  one. A 422 response whose body is \<^verbatim>\<open>{"message": ""}\<close> has one, and the error carries
  the generic string.
\<close>

theorem dispatchPipeline_empty_message_counterexample:
  "message_of (Json (JObj [(''message'', JStr [])])) = Some (JStr []) \<and>
   fst (dispatchPipeline ''o'' ''r'' json_str 1700 net_422_empty_message nvda_event ''tok'')
     = Inl (Error ''Dispatch failed: 422'')"
  by code_simp

text \<open>
  A body that is the JSON value \<open>null\<close> parses, so the fallback to the empty object is not
  taken, and reading \<open>message\<close> of it throws.
\<close>

lemma dispatchPipeline_null_body:
  "fst (dispatchPipeline ''o'' ''r'' json_str 1700 net_502_null nvda_event ''tok'') = Inl TypeError"
  by code_simp

subsection \<open>Polling\<close>

lemma poll_loop_rule:
  assumes I: "0 < I"
    and stop: "\<And>s. dl \<le> now s \<Longrightarrow> Q s (Inl timeout_error, s)"
    and hit: "\<And>s d. now s < dl \<Longrightarrow> try_fetch (fetched (w (iter s))) = Some d \<Longrightarrow>
                Q s (Inr d, after_sleep dl I (w (iter s)) s)"
    and miss: "\<And>s out. now s < dl \<Longrightarrow> try_fetch (fetched (w (iter s))) = None \<Longrightarrow>
                Q (after_sleep dl I (w (iter s)) s) out \<Longrightarrow> Q s out"
  shows "\<exists>out. poll_loop w dl I s = Some out \<and> Q s out"
proof (induction "dl - now s" arbitrary: s rule: less_induct)
  case less
  show ?case
  proof (cases "now s < dl")
    case False
    then have "poll_loop w dl I s = Some (Inl timeout_error, s)"
      by (subst poll_loop.simps) simp
    moreover from False have "Q s (Inl timeout_error, s)" by (intro stop) simp
    ultimately show ?thesis by simp
  next
    case True
    let ?s1 = "after_sleep dl I (w (iter s)) s"
    show ?thesis
    proof (cases "try_fetch (fetched (w (iter s)))")
      case (Some d)
      with True have "poll_loop w dl I s = Some (Inr d, ?s1)"
        by (subst poll_loop.simps) simp
      with hit [OF True Some] show ?thesis by simp
    next
      case None
      have "now s < now ?s1" using I by (simp add: after_sleep_def Let_def)
      with True have "dl - now ?s1 < dl - now s" by arith
      from less [OF this] obtain out where o: "poll_loop w dl I ?s1 = Some out" "Q ?s1 out"
        by blast
      from True None have "poll_loop w dl I s = poll_loop w dl I ?s1"
        by (subst poll_loop.simps) simp
      with o miss [OF True None o(2)] show ?thesis by simp
    qed
  qed
qed

lemma after_sleep_simps:
  "now (after_sleep dl I t s) = now s + I + lag t + took t"
  "iter (after_sleep dl I t s) = iter s + 1"
  "attempts (after_sleep dl I t s) =
     attempts s @ [\<lparr>entered_at = now s, issued_at = now s + I + lag t, outcome = fetched t\<rparr>]"
  by (simp_all add: after_sleep_def Let_def)

lemma poll_inv_step:
  assumes "poll_inv w dl I s" "now s < dl" "try_fetch (fetched (w (iter s))) = None"
  shows "poll_inv w dl I (after_sleep dl I (w (iter s)) s)"
  using assms by (auto simp: poll_inv_def after_sleep_simps)

lemma poll_loop_post:
  assumes "0 < I"
  shows "\<exists>out. poll_loop w dl I s = Some out \<and>
           (poll_inv w dl I s \<longrightarrow> poll_post w dl I (fst out) (snd out))"
proof (rule poll_loop_rule [OF assms])
  fix s :: poll_state assume "dl \<le> now s"
  then show "poll_inv w dl I s \<longrightarrow>
      poll_post w dl I (fst (Inl timeout_error, s)) (snd (Inl timeout_error, s))"
    by (auto simp: poll_inv_def poll_post_def dest: in_set_butlastD)
next
  fix s :: poll_state and d assume "now s < dl" "try_fetch (fetched (w (iter s))) = Some d"
  then show "poll_inv w dl I s \<longrightarrow>
      poll_post w dl I (fst (Inr d, after_sleep dl I (w (iter s)) s))
        (snd (Inr d, after_sleep dl I (w (iter s)) s))"
    by (auto simp: poll_inv_def poll_post_def after_sleep_simps)
next
  fix s :: poll_state and out
  assume a: "now s < dl" "try_fetch (fetched (w (iter s))) = None"
    and b: "poll_inv w dl I (after_sleep dl I (w (iter s)) s) \<longrightarrow>
            poll_post w dl I (fst out) (snd out)"
  show "poll_inv w dl I s \<longrightarrow> poll_post w dl I (fst out) (snd out)"
    using a b poll_inv_step by blast
qed

lemma try_fetch_SomeD:
  "try_fetch f = Some d \<Longrightarrow>
   (\<exists>resp. f = Got resp \<and> ok resp \<and> resp_body resp = Json d) \<and>
   member d ''status'' = Some (JStr ''complete'')"
  by (cases f; cases d) (auto split: if_splits body.splits)

lemma try_fetch_None_iff:
  "try_fetch f = None \<longleftrightarrow>
   (f = Failed \<or>
    (\<exists>resp. f = Got resp \<and>
       (\<not> ok resp \<or> resp_body resp = NotJson \<or>
        (\<exists>d. resp_body resp = Json d \<and> \<not> is_complete d))))"
  by (cases f) (auto split: if_splits body.splits)

lemma poll_inv_start:
  "poll_inv w dl I \<lparr>now = t, iter = 0, attempts = [], pings = []\<rparr>"
  by (simp add: poll_inv_def)

text \<open>
  Claim C5, amended. With a positive interval every run of the poll client ends. It
  returns a body only when the fetch of a turn of the loop that began before the
  deadline resolved to a successful response whose body parses and has the status
  \<open>complete\<close>, and that body is the value returned; the fetch itself is issued an interval
  or more after the turn began, which may be after the deadline. Every fetch before the
  last one was retried without a trace: it failed, or its response was not a success, or
  its body did not parse or was not complete. When the test of the loop finds the
  deadline reached, the run raises the timeout error, and no fetch of the run had given
  a complete body. A body whose status is not \<open>complete\<close> is never returned.
\<close>

theorem pollForResult_outcome:
  assumes "0 < intervalMs"
  shows "\<exists>r s'. pollForResult world now_ms maxWaitMs intervalMs = Some (r, s') \<and>
     map outcome (attempts s') = map (\<lambda>k. fetched (world k)) [0..<length (attempts s')] \<and>
     (\<forall>a \<in> set (attempts s').
        entered_at a < now_ms + maxWaitMs \<and> entered_at a + intervalMs \<le> issued_at a) \<and>
     (\<forall>a \<in> set (butlast (attempts s')). try_fetch (outcome a) = None) \<and>
     (case r of
        Inr data \<Rightarrow>
          attempts s' \<noteq> [] \<and>
          (\<exists>resp. outcome (last (attempts s')) = Got resp \<and> ok resp \<and> resp_body resp = Json data) \<and>
          member data ''status'' = Some (JStr ''complete'')
      | Inl e \<Rightarrow>
          e = timeout_error \<and> now_ms + maxWaitMs \<le> now s' \<and>
          (\<forall>a \<in> set (attempts s'). try_fetch (outcome a) = None))"
proof -
  let ?s0 = "\<lparr>now = now_ms, iter = 0, attempts = [], pings = []\<rparr>"
  from poll_loop_post [OF assms, of world "now_ms + maxWaitMs" ?s0] poll_inv_start
  obtain out where o: "poll_loop world (now_ms + maxWaitMs) intervalMs ?s0 = Some out"
    and p: "poll_post world (now_ms + maxWaitMs) intervalMs (fst out) (snd out)"
    by blast
  obtain r s' where out: "out = (r, s')" by (cases out)
  have e: "pollForResult world now_ms maxWaitMs intervalMs = Some (r, s')"
    using o out by (simp add: pollForResult_def)
  from p out have q: "poll_post world (now_ms + maxWaitMs) intervalMs r s'" by simp
  show ?thesis
  proof (cases r)
    case (Inl err)
    with q e show ?thesis by (auto simp: poll_post_def)
  next
    case (Inr data)
    with q have "try_fetch (outcome (last (attempts s'))) = Some data"
      by (simp add: poll_post_def)
    from try_fetch_SomeD [OF this] Inr q e show ?thesis by (auto simp: poll_post_def)
  qed
qed

lemma world_late_run:
  "pollForResult world_late 0 5000 3000 = Some (Inr complete_body, late_state)"
  by code_simp

theorem pollForResult_outcome_witness:
  "(0::nat) < 3000 \<and>
   (\<exists>d s'. pollForResult world_late 0 5000 3000 = Some (Inr d, s') \<and>
      member d ''status'' = Some (JStr ''complete''))"
proof -
  have h: "(0::nat) < 3000" by simp
  from pollForResult_outcome [OF h, of world_late 0 5000] world_late_run
  show ?thesis by auto
qed

text \<open>
  The claim as written lets the client return only when a fetch before the deadline has
  succeeded. With a budget of 5000 and an interval of 3000 the second turn begins at
  3000, before the deadline, and issues its fetch at 6000, after it; the body is complete
  and is returned.
\<close>

theorem pollForResult_late_fetch_counterexample:
  "pollForResult world_late 0 5000 3000 = Some (Inr complete_body, late_state) \<and>
   \<not> fetch_succeeded_before (0 + 5000) (attempts late_state)"
proof -
  have "\<not> fetch_succeeded_before (0 + 5000) (attempts late_state)" by code_simp
  with world_late_run show ?thesis by simp
qed

lemma count_inv_step:
  assumes "count_inv t0 D I s" "now s < t0 + D"
  shows "count_inv t0 D I (after_sleep (t0 + D) I t s)"
proof -
  let ?n = "length (attempts s)"
  from assms have a: "t0 + I * ?n \<le> now s" by (simp add: count_inv_def)
  with assms(2) have b: "I * ?n < D" by linarith
  have "t0 + I * Suc ?n \<le> now s + I + lag t + took t" using a by simp
  with b show ?thesis by (simp add: count_inv_def after_sleep_simps)
qed

lemma poll_loop_count:
  assumes "0 < I"
  shows "\<exists>out. poll_loop w (t0 + D) I s = Some out \<and>
           (count_inv t0 D I s \<longrightarrow>
              (attempts (snd out) = [] \<or> I * (length (attempts (snd out)) - 1) < D))"
proof (rule poll_loop_rule [OF assms])
  fix s :: poll_state assume "t0 + D \<le> now s"
  then show "count_inv t0 D I s \<longrightarrow>
      (attempts (snd (Inl timeout_error, s)) = [] \<or>
       I * (length (attempts (snd (Inl timeout_error, s))) - 1) < D)"
    by (simp add: count_inv_def)
next
  fix s :: poll_state and d
  assume "now s < t0 + D" "try_fetch (fetched (w (iter s))) = Some d"
  then show "count_inv t0 D I s \<longrightarrow>
      (attempts (snd (Inr d, after_sleep (t0 + D) I (w (iter s)) s)) = [] \<or>
       I * (length (attempts (snd (Inr d, after_sleep (t0 + D) I (w (iter s)) s))) - 1) < D)"
    using count_inv_step [of t0 D I s "w (iter s)"] by (auto simp: count_inv_def)
next
  fix s :: poll_state and out :: "(js_error + json) \<times> poll_state"
  assume a: "now s < t0 + D"
    and b: "count_inv t0 D I (after_sleep (t0 + D) I (w (iter s)) s) \<longrightarrow>
            (attempts (snd out) = [] \<or> I * (length (attempts (snd out)) - 1) < D)"
  show "count_inv t0 D I s \<longrightarrow>
        (attempts (snd out) = [] \<or> I * (length (attempts (snd out)) - 1) < D)"
    using a b count_inv_step by blast
qed

lemma ceiling_bound:
  fixes n D I :: nat
  assumes "0 < I" "n = 0 \<or> I * (n - 1) < D"
  shows "int n \<le> \<lceil>real D / real I\<rceil>"
proof (cases "n = 0")
  case True
  have "0 \<le> real D / real I" by simp
  then have "0 \<le> \<lceil>real D / real I\<rceil>" by linarith
  with True show ?thesis by simp
next
  case False
  with assms have "I * (n - 1) < D" by simp
  then have "real (I * (n - 1)) < real D" by (simp only: of_nat_less_iff)
  then have "real (n - 1) * real I < real D" by (simp add: mult.commute)
  then have "real (n - 1) < real D / real I" using assms(1) by (simp add: pos_less_divide_eq)
  also have "\<dots> \<le> of_int \<lceil>real D / real I\<rceil>" by linarith
  finally have "real (n - 1) < of_int \<lceil>real D / real I\<rceil>" .
  then have "int (n - 1) < \<lceil>real D / real I\<rceil>" by linarith
  with False show ?thesis by simp
qed

text \<open>
  Claim C6. With a wait budget \<open>D\<close> and a positive interval \<open>I\<close>, every run of the poll
  client ends and has made at most \<open>ceil(D / I)\<close> fetch attempts.
\<close>

theorem pollForResult_attempts_bound:
  assumes "0 < intervalMs"
  shows "\<exists>r s'. pollForResult world now_ms maxWaitMs intervalMs = Some (r, s') \<and>
           int (length (attempts s')) \<le> \<lceil>real maxWaitMs / real intervalMs\<rceil>"
proof -
  let ?s0 = "\<lparr>now = now_ms, iter = 0, attempts = [], pings = []\<rparr>"
  have i: "count_inv now_ms maxWaitMs intervalMs ?s0" by (simp add: count_inv_def)
  from poll_loop_count [OF assms, of world now_ms maxWaitMs ?s0] i
  obtain out where o: "poll_loop world (now_ms + maxWaitMs) intervalMs ?s0 = Some out"
    and p: "attempts (snd out) = [] \<or> intervalMs * (length (attempts (snd out)) - 1) < maxWaitMs"
    by blast
  obtain r s' where out: "out = (r, s')" by (cases out)
  have e: "pollForResult world now_ms maxWaitMs intervalMs = Some (r, s')"
    using o out by (simp add: pollForResult_def)
  from p out have "length (attempts s') = 0 \<or> intervalMs * (length (attempts s') - 1) < maxWaitMs"
    by simp
  with assms have "int (length (attempts s')) \<le> \<lceil>real maxWaitMs / real intervalMs\<rceil>"
    by (rule ceiling_bound)
  with e show ?thesis by blast
qed

lemma world_down_run:
  "map_option (\<lambda>out. (fst out, length (attempts (snd out)))) (pollForResult world_down 0 5000 3000)
   = Some (Inl timeout_error, 2)"
  by code_simp

theorem pollForResult_attempts_bound_witness:
  "(0::nat) < 3000 \<and>
   (\<exists>r s'. pollForResult world_down 0 5000 3000 = Some (r, s') \<and>
      length (attempts s') = 2 \<and> int (length (attempts s')) \<le> 2)"
proof -
  have h: "(0::nat) < 3000" by simp
  have c: "\<lceil>real 5000 / real 3000\<rceil> = 2" by (simp add: ceiling_eq_iff)
  from pollForResult_attempts_bound [OF h, of world_down 0 5000] world_down_run c
  show ?thesis by auto
qed

end
